theory Spec2Isabelle
  imports Main
begin

section \<open>Strings as the command-line tool uses them\<close>

text \<open>
  The tool \<^verbatim>\<open>pipdownload\<close> (file \<^verbatim>\<open>pipdownload/cli.py\<close>) tests
  candidate names with Python's \<^verbatim>\<open>tag in file\<close> (substring containment) and
  \<^verbatim>\<open>file_name.endswith(".tar.gz")\<close>. Python strings are modelled as
  \<^typ>\<open>string\<close>.
\<close>

fun starts_with :: "string \<Rightarrow> string \<Rightarrow> bool" where
  "starts_with s [] = True"
| "starts_with [] (c # p) = False"
| "starts_with (d # s) (c # p) = (d = c \<and> starts_with s p)"

text \<open>\<^verbatim>\<open>t in s\<close> for two Python strings.\<close>

primrec str_in :: "string \<Rightarrow> string \<Rightarrow> bool" where
  "str_in t [] = (t = [])"
| "str_in t (c # s) = (starts_with (c # s) t \<or> str_in t s)"

text \<open>\<^verbatim>\<open>s.endswith(suf)\<close>.\<close>

definition endswith :: "string \<Rightarrow> string \<Rightarrow> bool" where
  "endswith s suf = starts_with (rev s) (rev suf)"

section \<open>Option values and their truthiness\<close>

text \<open>
  The variables \<^verbatim>\<open>platform_tags\<close> and \<^verbatim>\<open>python_versions\<close> hold a tuple of
  strings when they come from the command line, a list of strings when they come from the
  configuration file, and \<^verbatim>\<open>None\<close> when \<^verbatim>\<open>settings_dict.get(key, None)\<close>
  finds no key. Python's \<^verbatim>\<open>if platform_tags:\<close> is false for \<^verbatim>\<open>None\<close> and for
  an empty sequence.
\<close>

type_synonym tags = "string list option"

fun truthy :: "tags \<Rightarrow> bool" where
  "truthy None = False"
| "truthy (Some []) = False"
| "truthy (Some (t # ts)) = True"

fun elems :: "tags \<Rightarrow> string list" where
  "elems None = []"
| "elems (Some ts) = ts"

section \<open>The eligibility decision (cli.py, lines 216 to 249)\<close>

text \<open>
  The loop
  \<^verbatim>\<open>for tag in tags: if tag in file: eligible = True; break  else: eligible = False\<close>
  with the value of \<^verbatim>\<open>eligible\<close> before the loop as third argument.
\<close>

fun tag_loop :: "string list \<Rightarrow> string \<Rightarrow> bool \<Rightarrow> bool" where
  "tag_loop [] file eligible = eligible"
| "tag_loop (tag # rest) file eligible =
     (if str_in tag file then True else tag_loop rest file False)"

text \<open>Lines 229 to 249: the two tag axes, the platform axis first.\<close>

definition tag_filter :: "tags \<Rightarrow> tags \<Rightarrow> string \<Rightarrow> bool" where
  "tag_filter platform_tags python_versions file =
     (let eligible = True;
          eligible = (if truthy platform_tags
                      then tag_loop (elems platform_tags) file eligible else eligible)
      in if \<not> eligible then False
         else (if truthy python_versions
               then tag_loop (elems python_versions) file eligible else eligible))"

text \<open>
  Line 220 tests \<^verbatim>\<open>file_name\<close>, the name of the file that \<^verbatim>\<open>pip download\<close> left
  in the temporary directory, not \<^verbatim>\<open>file\<close>, the candidate link of the index page.
\<close>

definition source_rule :: "bool \<Rightarrow> string \<Rightarrow> bool" where
  "source_rule no_source file_name =
     ((endswith file_name ''.tar.gz'' \<or> endswith file_name ''.zip'') \<and> \<not> no_source)"

text \<open>
  Whether the body of the loop over the candidate links (lines 216 to 249) calls
  \<^verbatim>\<open>download(file, dest_dir)\<close> for the candidate \<^verbatim>\<open>file\<close>.
\<close>

definition is_eligible :: "tags \<Rightarrow> tags \<Rightarrow> bool \<Rightarrow> string \<Rightarrow> string \<Rightarrow> bool" where
  "is_eligible platform_tags python_versions no_source file_name file =
     (if str_in ''none-any'' file then True
      else if source_rule no_source file_name then True
      else tag_filter platform_tags python_versions file)"

section \<open>What a run does: events and exceptions\<close>

text \<open>
  The function \<^verbatim>\<open>pipdownload\<close> acts on the world through calls whose code is not
  part of \<^verbatim>\<open>cli.py\<close>: \<^verbatim>\<open>click.echo\<close>, \<^verbatim>\<open>warnings.warn\<close>, the logger,
  \<^verbatim>\<open>subprocess.check_call\<close>, \<^verbatim>\<open>session.get\<close> and the two download functions
  of \<^verbatim>\<open>pipdownload.utils\<close>. A run is modelled by the list of these calls in the order
  in which they are made, together with the exception that ended it, if any. The files in
  the destination directory are the \<open>Download\<close> events of the run.
\<close>

datatype exn =
    CalledProcessError nat "string list"
  | ConnectionError string
  | UnicodeDecodeError
  | RecursionError
  | AttributeError
  | OtherError string

datatype level = INFO | WARNING | ERROR

datatype downloader = normal_download | quiet_download

datatype event =
    Touch string
  | Echo string
  | Warn string
  | SetLevel level
  | MakeDirs string
  | Log level string
  | LogExn level exn
  | CheckCall "string list"
  | Get string
  | Download downloader string string

text \<open>The result of \<^verbatim>\<open>resolve_package_file\<close>; only \<^verbatim>\<open>.name\<close> is read here.\<close>

record python_package =
  name :: "string option"
  version :: "string option"

text \<open>
  \<^verbatim>\<open>json.loads(f.read(), object_pairs_hook=OrderedDict)\<close> on the settings file
  (line 131) has four outcomes:
  \<^item> it raises \<^verbatim>\<open>JSONDecodeError\<close>, the one exception that line 132 catches;
  \<^item> it raises another exception, which nothing catches: \<^verbatim>\<open>UnicodeDecodeError\<close> from
    \<^verbatim>\<open>f.read()\<close> on bytes that are not text, \<^verbatim>\<open>RecursionError\<close> from
    \<^verbatim>\<open>json.loads\<close> on brackets nested too deeply;
  \<^item> it returns a JSON object, whose two keys hold arrays of strings;
  \<^item> it returns a JSON value that is not an object (an array, a string, a number,
    \<^verbatim>\<open>true\<close>, \<^verbatim>\<open>false\<close>, \<^verbatim>\<open>null\<close>), which has no method \<^verbatim>\<open>get\<close>.
\<close>

datatype loads_result =
    JSONDecodeError
  | Raises exn
  | Object "string \<rightharpoonup> string list"
  | NotObject

text \<open>The value of the variable \<^verbatim>\<open>settings_dict\<close> after line 133.\<close>

datatype settings = Dict "string \<rightharpoonup> string list" | NotDict

text \<open>
  The collaborators of \<^verbatim>\<open>pipdownload\<close>, as parameters of the model:
  \<^item> \<open>SETTINGS_FILE\<close>: the constant of \<^verbatim>\<open>pipdownload.settings\<close>;
  \<^item> \<open>settings_file\<close>: \<open>None\<close> when \<^verbatim>\<open>Path(SETTINGS_FILE).exists()\<close> is false,
    otherwise what \<^verbatim>\<open>json.loads\<close> does on its text;
  \<^item> \<open>zone\<close>: \<^verbatim>\<open>get_localzone().zone\<close>;
  \<^item> \<open>getcwd\<close>, \<open>path_exists\<close>, \<open>sys_executable\<close>: \<^verbatim>\<open>os.getcwd()\<close>,
    \<^verbatim>\<open>os.path.exists\<close>, \<^verbatim>\<open>sys.executable\<close>;
  \<^item> \<open>temp_path\<close>: the path of the \<^verbatim>\<open>TempDirectory\<close> of the \<open>i\<close>-th package;
  \<^item> \<open>check_call\<close>: the exit status of the command (\<^verbatim>\<open>subprocess.check_call\<close>
    raises \<^verbatim>\<open>CalledProcessError\<close> when it is not zero);
  \<^item> \<open>listdir_after\<close>: what \<^verbatim>\<open>os.listdir(directory.path)\<close> returns after the
    command has run;
  \<^item> \<open>parse_requirements\<close>: \<^verbatim>\<open>str(value)\<close> for each value of
    \<^verbatim>\<open>pip_api.parse_requirements(requirement_file)\<close>;
  \<^item> \<open>resolve_package_file\<close>, \<open>mkurl_pypi_url\<close>, \<open>get_file_links\<close>: the functions
    of \<^verbatim>\<open>pipdownload.utils\<close>;
  \<^item> \<open>session_get\<close>: \<^verbatim>\<open>session.get(url)\<close>, the text of the response or the
    exception raised.
\<close>

record env =
  SETTINGS_FILE :: string
  settings_file :: "loads_result option"
  zone :: string
  getcwd :: string
  path_exists :: "string \<Rightarrow> bool"
  sys_executable :: string
  temp_path :: "nat \<Rightarrow> string"
  check_call :: "string list \<Rightarrow> nat"
  listdir_after :: "string list \<Rightarrow> string list"
  parse_requirements :: "string \<Rightarrow> string list"
  resolve_package_file :: "string \<Rightarrow> python_package"
  mkurl_pypi_url :: "string \<Rightarrow> string \<Rightarrow> string"
  session_get :: "string \<Rightarrow> exn + string"
  get_file_links :: "string \<Rightarrow> string \<Rightarrow> python_package \<Rightarrow> string list"

section \<open>Filters from the command line and the settings file (lines 122 to 153)\<close>

text \<open>Lines 122 to 126: \<^verbatim>\<open>--show-config\<close> creates an empty settings file if there is none;
  the empty text is not JSON.\<close>

definition show_config_step :: "string \<Rightarrow> bool \<Rightarrow> loads_result option \<Rightarrow> loads_result option \<times> event list" where
  "show_config_step path show_config sf =
     (if show_config
      then (case sf of
              None \<Rightarrow> (Some JSONDecodeError,
                        [Touch path, Echo (''The config file is '' @ path @ ''.'')])
            | Some r \<Rightarrow> (Some r, [Echo (''The config file is '' @ path @ ''.'')]))
      else (sf, []))"

text \<open>
  Lines 128 to 133: the file is read when it exists; \<^verbatim>\<open>JSONDecodeError\<close> gives the empty
  dictionary, any other exception leaves the function.
\<close>

fun read_settings :: "loads_result option \<Rightarrow> exn + settings option" where
  "read_settings None = Inr None"
| "read_settings (Some JSONDecodeError) = Inr (Some (Dict Map.empty))"
| "read_settings (Some (Raises x)) = Inl x"
| "read_settings (Some (Object d)) = Inr (Some (Dict d))"
| "read_settings (Some NotObject) = Inr (Some NotDict)"

text \<open>\<^verbatim>\<open>settings_dict.get(key, None)\<close>.\<close>

fun dict_get :: "settings \<Rightarrow> string \<Rightarrow> exn + tags" where
  "dict_get (Dict d) key = Inr (d key)"
| "dict_get NotDict key = Inl AttributeError"

text \<open>Lines 135 to 143, for the value of \<^verbatim>\<open>settings_dict\<close> when the file exists.\<close>

definition apply_settings ::
  "settings option \<Rightarrow> string list \<Rightarrow> tags \<Rightarrow> tags \<Rightarrow> exn + ((tags \<times> tags) \<times> event list)" where
  "apply_settings st whl_suffixes platform_tags python_versions =
     (case st of
        None \<Rightarrow> Inr ((platform_tags, python_versions), [])
      | Some settings_dict \<Rightarrow>
          (case (if \<not> truthy python_versions
                 then (case dict_get settings_dict ''python_versions'' of
                         Inl x \<Rightarrow> Inl x
                       | Inr python_versions \<Rightarrow>
                           Inr (python_versions,
                                if \<not> truthy python_versions
                                then [Echo ''Using `python_versions` in config file.''] else []))
                 else Inr (python_versions, [])) of
             Inl x \<Rightarrow> Inl x
           | Inr (python_versions, ev1) \<Rightarrow>
               (case (if whl_suffixes = [] \<or> \<not> truthy platform_tags
                      then (case dict_get settings_dict ''platform_tags'' of
                              Inl x \<Rightarrow> Inl x
                            | Inr platform_tags \<Rightarrow>
                                Inr (platform_tags,
                                     if \<not> truthy platform_tags
                                     then [Echo ''Using `platform_tags` in config file.''] else []))
                      else Inr (platform_tags, [])) of
                  Inl x \<Rightarrow> Inl x
                | Inr (platform_tags, ev2) \<Rightarrow> Inr ((platform_tags, python_versions), ev1 @ ev2))))"

text \<open>Lines 149 to 153: the deprecated \<^verbatim>\<open>--suffix\<close>.\<close>

definition apply_suffix :: "string list \<Rightarrow> tags \<Rightarrow> tags \<times> event list" where
  "apply_suffix whl_suffixes platform_tags =
     (if whl_suffixes \<noteq> []
      then (Some whl_suffixes,
            [Warn ''Option '-s/--suffix' has been deprecated. Please use '-p/--platform-tag' instead.''])
      else (platform_tags, []))"

text \<open>
  The values of \<^verbatim>\<open>platform_tags\<close> and \<^verbatim>\<open>python_versions\<close> that reach the loop over
  the packages, from the state of the settings file and the three repeatable options (a tuple
  each, empty when the option is not given), or the exception that lines 128 to 143 raise.
\<close>

definition filter_spec ::
  "loads_result option \<Rightarrow> string list \<Rightarrow> string list \<Rightarrow> string list
     \<Rightarrow> exn + ((tags \<times> tags) \<times> event list)" where
  "filter_spec sf whl_suffixes platform_tags python_versions =
     (case read_settings sf of
        Inl x \<Rightarrow> Inl x
      | Inr st \<Rightarrow>
          (case apply_settings st whl_suffixes (Some platform_tags) (Some python_versions) of
             Inl x \<Rightarrow> Inl x
           | Inr ((platform_tags, python_versions), ev1) \<Rightarrow>
               (case apply_suffix whl_suffixes platform_tags of
                  (platform_tags, ev2) \<Rightarrow> Inr ((platform_tags, python_versions), ev1 @ ev2))))"

text \<open>Lines 145 to 147.\<close>

definition choose_index_url :: "string \<Rightarrow> string \<Rightarrow> string" where
  "choose_index_url tz_zone index_url =
     (if tz_zone \<in> set [''Asia/Shanghai'', ''Asia/Chongqing'']
      then ''https://mirrors.aliyun.com/pypi/simple/'' else index_url)"

text \<open>The default of \<^verbatim>\<open>--index-url\<close> (line 38).\<close>

definition default_index_url :: string where
  "default_index_url = ''https://pypi.org/simple''"

section \<open>The loops (lines 155 to 258)\<close>

text \<open>Lines 155 to 159.\<close>

definition quiet_step :: "bool \<Rightarrow> downloader \<times> event list" where
  "quiet_step quiet = (if quiet then (quiet_download, [SetLevel ERROR]) else (normal_download, []))"

text \<open>Lines 161 to 165. \<^verbatim>\<open>click\<close> gives \<^verbatim>\<open>None\<close> when \<^verbatim>\<open>--dest\<close> is absent.\<close>

definition dest_step :: "env \<Rightarrow> string option \<Rightarrow> string \<times> event list" where
  "dest_step e dest_dir =
     (case dest_dir of
        None \<Rightarrow> (getcwd e, [])
      | Some d \<Rightarrow>
          (if d = [] then (getcwd e, [])
           else if \<not> path_exists e d then (d, [MakeDirs d]) else (d, [])))"

text \<open>
  Lines 167 to 172: \<^verbatim>\<open>itertools.chain(packages_extra, packages)\<close>, where
  \<^verbatim>\<open>packages_extra\<close> is a Python set. The order in which Python iterates a set is not
  specified; the model takes the order of first occurrence.
\<close>

definition chain_packages :: "env \<Rightarrow> string option \<Rightarrow> string list \<Rightarrow> string list" where
  "chain_packages e requirement_file packages =
     (case requirement_file of
        Some f \<Rightarrow> remdups (parse_requirements e f)
      | None \<Rightarrow> []) @ packages"

text \<open>Lines 214 to 249: the candidate links of one index page.\<close>

fun links_loop ::
  "downloader \<Rightarrow> string \<Rightarrow> tags \<Rightarrow> tags \<Rightarrow> bool \<Rightarrow> string \<Rightarrow> string list \<Rightarrow> event list" where
  "links_loop download dest_dir platform_tags python_versions no_source file_name [] = []"
| "links_loop download dest_dir platform_tags python_versions no_source file_name (file # rest) =
     (if is_eligible platform_tags python_versions no_source file_name file
      then [Download download file dest_dir] else [])
     @ links_loop download dest_dir platform_tags python_versions no_source file_name rest"

text \<open>The text of the warning of lines 206 to 209.\<close>

definition cannot_resolve :: string where
  "cannot_resolve =
     ''Can not resolve a package's name and version from a downloaded package. You shuold ''
     @ ''create an issue maybe.''"

text \<open>Lines 204 to 257: one file of the temporary directory.\<close>

definition process_file ::
  "env \<Rightarrow> string \<Rightarrow> downloader \<Rightarrow> string \<Rightarrow> tags \<Rightarrow> tags \<Rightarrow> bool \<Rightarrow> string \<Rightarrow> exn option \<times> event list" where
  "process_file e index_url download dest_dir platform_tags python_versions no_source file_name =
     (let python_package = resolve_package_file e file_name in
      case name python_package of
        None \<Rightarrow> (None, [Log WARNING cannot_resolve])
      | Some n \<Rightarrow>
          (let url = mkurl_pypi_url e index_url n in
           case session_get e url of
             Inr text \<Rightarrow>
               (None,
                Get url # links_loop download dest_dir platform_tags python_versions no_source file_name
                            (get_file_links e text url python_package))
           | Inl (ConnectionError m) \<Rightarrow>
               (Some (ConnectionError m),
                [Get url,
                 Log ERROR (''Can not get information about package '' @ n
                            @ '', and the Exception is below.''),
                 LogExn ERROR (ConnectionError m)])
           | Inl x \<Rightarrow> (Some x, [Get url])))"

text \<open>Lines 203 to 257: the files of the temporary directory, until one raises.\<close>

fun files_loop ::
  "env \<Rightarrow> string \<Rightarrow> downloader \<Rightarrow> string \<Rightarrow> tags \<Rightarrow> tags \<Rightarrow> bool \<Rightarrow> string list \<Rightarrow> exn option \<times> event list" where
  "files_loop e index_url download dest_dir platform_tags python_versions no_source [] = (None, [])"
| "files_loop e index_url download dest_dir platform_tags python_versions no_source (file_name # rest) =
     (case process_file e index_url download dest_dir platform_tags python_versions no_source file_name of
        (Some x, evs) \<Rightarrow> (Some x, evs)
      | (None, evs) \<Rightarrow>
          (case files_loop e index_url download dest_dir platform_tags python_versions no_source rest of
             (r, evs') \<Rightarrow> (r, evs @ evs')))"

text \<open>Lines 180 to 192: the command line of the resolver.\<close>

definition command :: "env \<Rightarrow> string \<Rightarrow> bool \<Rightarrow> nat \<Rightarrow> string \<Rightarrow> string list" where
  "command e index_url quiet i package =
     [sys_executable e, ''-m'', ''pip'', ''download'', ''-i'', index_url, ''--dest'', temp_path e i, package]
     @ (if quiet then [''--progress-bar'', ''off'', ''-qqq''] else [])"

text \<open>Lines 173 to 258: one package, the \<open>i\<close>-th of the run.\<close>

definition process_package ::
  "env \<Rightarrow> string \<Rightarrow> bool \<Rightarrow> downloader \<Rightarrow> string \<Rightarrow> tags \<Rightarrow> tags \<Rightarrow> bool \<Rightarrow> nat \<Rightarrow> string \<Rightarrow> exn option \<times> event list" where
  "process_package e index_url quiet download dest_dir platform_tags python_versions no_source i package =
     (let start = [Log INFO (''We are using pip download command to download package '' @ package),
                   Log INFO (replicate 50 (CHR ''-''))];
          cmd = command e index_url quiet i package;
          status = check_call e cmd
      in if status \<noteq> 0
         then (Some (CalledProcessError status cmd),
               start @
               [CheckCall cmd,
                Log ERROR (''Sorry, we can not use pip download to download the package '' @ package
                           @ '', and Exception is below''),
                LogExn ERROR (CalledProcessError status cmd)])
         else (case files_loop e index_url download dest_dir platform_tags python_versions no_source
                      (listdir_after e cmd) of
                 (Some x, evs) \<Rightarrow> (Some x, start @ [CheckCall cmd] @ evs)
               | (None, evs) \<Rightarrow>
                   (None, start @ [CheckCall cmd] @ evs
                          @ [Log INFO ''All packages have been downloaded successfully!''])))"

text \<open>Line 172: the packages in turn, until one raises.\<close>

fun packages_loop ::
  "env \<Rightarrow> string \<Rightarrow> bool \<Rightarrow> downloader \<Rightarrow> string \<Rightarrow> tags \<Rightarrow> tags \<Rightarrow> bool \<Rightarrow> nat \<Rightarrow> string list \<Rightarrow> exn option \<times> event list" where
  "packages_loop e index_url quiet download dest_dir platform_tags python_versions no_source i [] = (None, [])"
| "packages_loop e index_url quiet download dest_dir platform_tags python_versions no_source i (package # rest) =
     (case process_package e index_url quiet download dest_dir platform_tags python_versions no_source i package of
        (Some x, evs) \<Rightarrow> (Some x, evs)
      | (None, evs) \<Rightarrow>
          (case packages_loop e index_url quiet download dest_dir platform_tags python_versions no_source (Suc i) rest of
             (r, evs') \<Rightarrow> (r, evs @ evs')))"

text \<open>The function \<^verbatim>\<open>pipdownload\<close> (lines 105 to 258), with its ten parameters.\<close>

definition pipdownload ::
  "env \<Rightarrow> string list \<Rightarrow> string \<Rightarrow> string option \<Rightarrow> string option \<Rightarrow> string list \<Rightarrow> string list
     \<Rightarrow> string list \<Rightarrow> bool \<Rightarrow> bool \<Rightarrow> bool \<Rightarrow> exn option \<times> event list" where
  "pipdownload e packages index_url requirement_file dest_dir whl_suffixes platform_tags python_versions
       quiet no_source show_config =
     (case show_config_step (SETTINGS_FILE e) show_config (settings_file e) of
        (sf, ev0) \<Rightarrow>
     (case filter_spec sf whl_suffixes platform_tags python_versions of
        Inl x \<Rightarrow> (Some x, ev0)
      | Inr ((platform_tags, python_versions), ev1) \<Rightarrow>
     (case quiet_step quiet of
        (download, ev2) \<Rightarrow>
     (case dest_step e dest_dir of
        (dest_dir, ev3) \<Rightarrow>
     (case packages_loop e (choose_index_url (zone e) index_url) quiet download dest_dir
             platform_tags python_versions no_source 0
             (chain_packages e requirement_file packages) of
        (r, ev4) \<Rightarrow> (r, ev0 @ ev1 @ ev2 @ ev3 @ ev4))))))"

section \<open>Reading a run\<close>

text \<open>The files written to the destination: the calls of \<^verbatim>\<open>download(file, dest_dir)\<close>.\<close>

fun downloads :: "event list \<Rightarrow> (string \<times> string) list" where
  "downloads [] = []"
| "downloads (Download d file dest_dir # evs) = (file, dest_dir) # downloads evs"
| "downloads (ev # evs) = downloads evs"

text \<open>The commands given to the resolver.\<close>

fun check_calls :: "event list \<Rightarrow> string list list" where
  "check_calls [] = []"
| "check_calls (CheckCall cmd # evs) = cmd # check_calls evs"
| "check_calls (ev # evs) = check_calls evs"

text \<open>The index pages fetched.\<close>

fun gets :: "event list \<Rightarrow> string list" where
  "gets [] = []"
| "gets (Get url # evs) = url # gets evs"
| "gets (ev # evs) = gets evs"

text \<open>The package of a resolver command: its ninth word.\<close>

definition package_of :: "string list \<Rightarrow> string" where
  "package_of cmd = cmd ! 8"

section \<open>An example environment\<close>

text \<open>
  A small world on which the functions above can be run: no settings file, a resolver that
  fails for the package \<open>nosuch\<close> and otherwise leaves one source archive in the temporary
  directory, and an index page with a source archive, a universal wheel and two platform wheels.
\<close>

definition example_links :: "string list" where
  "example_links =
     [''six-1.0.tar.gz'', ''six-1.0-py3-none-any.whl'',
      ''six-1.0-cp39-cp39-win_amd64.whl'', ''six-1.0-cp38-cp38-manylinux2014_x86_64.whl'']"

definition example_env :: env where
  "example_env =
     \<lparr> SETTINGS_FILE = ''/home/u/.config/pip-download/settings.json'',
       settings_file = None,
       zone = ''Europe/Paris'',
       getcwd = ''/home/u'',
       path_exists = (\<lambda>p. True),
       sys_executable = ''python3'',
       temp_path = (\<lambda>i. ''/tmp/w''),
       check_call = (\<lambda>cmd. if package_of cmd = ''nosuch'' then 1 else 0),
       listdir_after = (\<lambda>cmd. [package_of cmd @ ''-1.0.tar.gz'']),
       parse_requirements = (\<lambda>f. [''six'']),
       resolve_package_file =
         (\<lambda>f. if endswith f ''-1.0.tar.gz''
              then \<lparr> name = Some (take (length f - 11) f), version = Some ''1.0'' \<rparr>
              else \<lparr> name = None, version = None \<rparr>),
       mkurl_pypi_url = (\<lambda>index_url n. index_url @ ''/'' @ n @ ''/''),
       session_get = (\<lambda>url. Inr url),
       get_file_links = (\<lambda>text url p. example_links) \<rparr>"

section \<open>Facts about the string tests\<close>

lemma starts_with_iff: "starts_with s p \<longleftrightarrow> (\<exists>r. s = p @ r)"
  by (induction s p rule: starts_with.induct) auto


lemma endswith_iff: "endswith s suf \<longleftrightarrow> (\<exists>p. s = p @ suf)"
proof -
  have "(\<exists>r. rev s = rev suf @ r) \<longleftrightarrow> (\<exists>p. s = p @ suf)"
  proof
    assume "\<exists>r. rev s = rev suf @ r"
    then obtain r where "rev s = rev suf @ r" by blast
    then have "rev (rev s) = rev (rev suf @ r)" by simp
    then have "s = rev r @ suf" by simp
    then show "\<exists>p. s = p @ suf" by blast
  next
    assume "\<exists>p. s = p @ suf"
    then obtain p where "s = p @ suf" by blast
    then have "rev s = rev suf @ rev p" by simp
    then show "\<exists>r. rev s = rev suf @ r" by blast
  qed
  then show ?thesis by (simp add: endswith_def starts_with_iff)
qed





section \<open>Facts about the events of a run\<close>

lemma downloads_append: "downloads (xs @ ys) = downloads xs @ downloads ys"
  by (induction xs rule: downloads.induct) simp_all

lemma check_calls_append: "check_calls (xs @ ys) = check_calls xs @ check_calls ys"
  by (induction xs rule: check_calls.induct) simp_all

lemma gets_append: "gets (xs @ ys) = gets xs @ gets ys"
  by (induction xs rule: gets.induct) simp_all

lemma check_calls_links:
  "check_calls (links_loop d dd pt pv ns fn files) = []"
  by (induction files) (simp_all add: check_calls_append)

lemma gets_links:
  "gets (links_loop d dd pt pv ns fn files) = []"
  by (induction files) (simp_all add: gets_append)

lemma downloads_links:
  "downloads (links_loop d dd pt pv ns fn files) =
     map (\<lambda>file. (file, dd)) (filter (is_eligible pt pv ns fn) files)"
  by (induction files) (simp_all add: downloads_append)

lemma check_calls_process_file:
  "check_calls (snd (process_file e iu d dd pt pv ns fn)) = []"
  by (simp add: process_file_def Let_def check_calls_links
           split: option.splits sum.splits exn.splits)

lemma gets_process_file:
  "set (gets (snd (process_file e iu d dd pt pv ns fn))) \<subseteq> range (mkurl_pypi_url e iu)"
  by (auto simp: process_file_def Let_def gets_links
           split: option.splits sum.splits exn.splits)

lemma check_calls_files_loop:
  "check_calls (snd (files_loop e iu d dd pt pv ns fs)) = []"
proof (induction fs)
  case Nil
  then show ?case by simp
next
  case (Cons f fs)
  have "check_calls (snd (process_file e iu d dd pt pv ns f)) = []"
    by (rule check_calls_process_file)
  with Cons show ?case
    by (auto simp: check_calls_append split: prod.splits option.splits)
qed

lemma gets_files_loop:
  "set (gets (snd (files_loop e iu d dd pt pv ns fs))) \<subseteq> range (mkurl_pypi_url e iu)"
proof (induction fs)
  case Nil
  then show ?case by simp
next
  case (Cons f fs)
  have "set (gets (snd (process_file e iu d dd pt pv ns f))) \<subseteq> range (mkurl_pypi_url e iu)"
    by (rule gets_process_file)
  with Cons show ?case
    by (auto simp: gets_append split: prod.splits option.splits)
qed

lemma package_of_command: "package_of (command e iu q i p) = p"
  by (simp add: package_of_def command_def nth_append)

lemma index_of_command: "command e iu q i p ! 5 = iu"
  by (simp add: command_def nth_append)

lemma check_calls_process_package:
  "check_calls (snd (process_package e iu q d dd pt pv ns i p)) = [command e iu q i p]"
proof -
  obtain r evs where fl: "files_loop e iu d dd pt pv ns (listdir_after e (command e iu q i p)) = (r, evs)"
    by force
  have "check_calls evs = []"
    using check_calls_files_loop [of e iu d dd pt pv ns "listdir_after e (command e iu q i p)"] fl
    by simp
  then show ?thesis
    using fl by (cases r) (simp_all add: process_package_def Let_def check_calls_append)
qed

lemma gets_process_package:
  "set (gets (snd (process_package e iu q d dd pt pv ns i p))) \<subseteq> range (mkurl_pypi_url e iu)"
proof -
  obtain r evs where fl: "files_loop e iu d dd pt pv ns (listdir_after e (command e iu q i p)) = (r, evs)"
    by force
  have "set (gets evs) \<subseteq> range (mkurl_pypi_url e iu)"
    using gets_files_loop [of e iu d dd pt pv ns "listdir_after e (command e iu q i p)"] fl
    by simp
  then show ?thesis
    using fl by (cases r) (auto simp: process_package_def Let_def gets_append)
qed

lemma check_calls_packages_loop:
  "fst (packages_loop e iu q d dd pt pv ns i ps) = None \<Longrightarrow>
   map package_of (check_calls (snd (packages_loop e iu q d dd pt pv ns i ps))) = ps"
proof (induction ps arbitrary: i)
  case Nil
  then show ?case by simp
next
  case (Cons p ps)
  obtain r evs where pp: "process_package e iu q d dd pt pv ns i p = (r, evs)" by force
  obtain r' evs' where pl: "packages_loop e iu q d dd pt pv ns (Suc i) ps = (r', evs')" by force
  from Cons.prems pp pl have r: "r = None" and r': "r' = None"
    by (cases r; simp)+
  have c: "check_calls evs = [command e iu q i p]"
    using check_calls_process_package [of e iu q d dd pt pv ns i p] pp by simp
  have "map package_of (check_calls evs') = ps"
    using Cons.IH [of "Suc i"] pl r' by simp
  then show ?case
    using pp pl r c by (simp add: check_calls_append package_of_command)
qed

lemma index_packages_loop:
  "cmd \<in> set (check_calls (snd (packages_loop e iu q d dd pt pv ns i ps))) \<Longrightarrow> cmd ! 5 = iu"
proof (induction ps arbitrary: i)
  case Nil
  then show ?case by simp
next
  case (Cons p ps)
  obtain r evs where pp: "process_package e iu q d dd pt pv ns i p = (r, evs)" by force
  obtain r' evs' where pl: "packages_loop e iu q d dd pt pv ns (Suc i) ps = (r', evs')" by force
  have c: "check_calls evs = [command e iu q i p]"
    using check_calls_process_package [of e iu q d dd pt pv ns i p] pp by simp
  from Cons.prems pp pl c have "cmd = command e iu q i p \<or> cmd \<in> set (check_calls evs')"
    by (cases r) (auto simp: check_calls_append)
  then show ?case
    using Cons.IH [of "Suc i"] pl by (auto simp: index_of_command)
qed

lemma gets_packages_loop:
  "set (gets (snd (packages_loop e iu q d dd pt pv ns i ps))) \<subseteq> range (mkurl_pypi_url e iu)"
proof (induction ps arbitrary: i)
  case Nil
  then show ?case by simp
next
  case (Cons p ps)
  have "set (gets (snd (process_package e iu q d dd pt pv ns i p))) \<subseteq> range (mkurl_pypi_url e iu)"
    by (rule gets_process_package)
  with Cons.IH [of "Suc i"] show ?case
    by (auto simp: gets_append split: prod.splits option.splits)
qed

lemma setup_events:
  "check_calls (snd (show_config_step path sc sf)) = []"
  "gets (snd (show_config_step path sc sf)) = []"
  "downloads (snd (show_config_step path sc sf)) = []"
  "check_calls (snd (quiet_step q)) = []"
  "gets (snd (quiet_step q)) = []"
  "downloads (snd (quiet_step q)) = []"
  "check_calls (snd (dest_step e dd)) = []"
  "gets (snd (dest_step e dd)) = []"
  "downloads (snd (dest_step e dd)) = []"
  by (auto simp: show_config_step_def quiet_step_def dest_step_def
        split: option.splits prod.splits if_splits)

lemma apply_settings_events:
  "apply_settings st ws ps vs = Inr (f, ev) \<Longrightarrow>
   check_calls ev = [] \<and> gets ev = [] \<and> downloads ev = []"
  by (cases st)
     (auto simp: apply_settings_def check_calls_append gets_append downloads_append
        split: sum.splits prod.splits if_splits)

lemma filter_spec_events:
  "filter_spec sf ws ps vs = Inr (f, ev) \<Longrightarrow>
   check_calls ev = [] \<and> gets ev = [] \<and> downloads ev = []"
proof -
  assume a: "filter_spec sf ws ps vs = Inr (f, ev)"
  then obtain st where r: "read_settings sf = Inr st"
    by (auto simp: filter_spec_def split: sum.splits)
  with a obtain g ev1 where s: "apply_settings st ws (Some ps) (Some vs) = Inr (g, ev1)"
    by (auto simp: filter_spec_def split: sum.splits)
  then have e1: "check_calls ev1 = [] \<and> gets ev1 = [] \<and> downloads ev1 = []"
    by (rule apply_settings_events)
  have "ev = ev1 @ snd (apply_suffix ws (fst g))"
    using a r s by (cases g) (auto simp: filter_spec_def split: prod.splits)
  then show ?thesis
    using e1 by (simp add: apply_suffix_def check_calls_append gets_append downloads_append)
qed

text \<open>
  A run either ends at the settings file, before any package, or is the loop over the
  packages after events that call no resolver, fetch no page and download nothing.
\<close>

lemma pipdownload_run:
  "(\<exists>x pre. check_calls pre = [] \<and> gets pre = [] \<and> downloads pre = [] \<and>
      pipdownload e packages index_url requirement_file dest_dir whl_suffixes platform_tags
        python_versions quiet no_source show_config = (Some x, pre)) \<or>
   (\<exists>pt pv pre. check_calls pre = [] \<and> gets pre = [] \<and> downloads pre = [] \<and>
      pipdownload e packages index_url requirement_file dest_dir whl_suffixes platform_tags
        python_versions quiet no_source show_config =
      (fst (packages_loop e (choose_index_url (zone e) index_url) quiet (fst (quiet_step quiet))
              (fst (dest_step e dest_dir)) pt pv no_source 0
              (chain_packages e requirement_file packages)),
       pre @ snd (packages_loop e (choose_index_url (zone e) index_url) quiet
              (fst (quiet_step quiet)) (fst (dest_step e dest_dir)) pt pv no_source 0
              (chain_packages e requirement_file packages))))"
proof -
  obtain sf ev0 where a: "show_config_step (SETTINGS_FILE e) show_config (settings_file e) = (sf, ev0)"
    by force
  have e0: "check_calls ev0 = [] \<and> gets ev0 = [] \<and> downloads ev0 = []"
    using setup_events(1-3) [of "SETTINGS_FILE e" show_config "settings_file e"] a by simp
  show ?thesis
  proof (cases "filter_spec sf whl_suffixes platform_tags python_versions")
    case (Inl x)
    then have "pipdownload e packages index_url requirement_file dest_dir whl_suffixes platform_tags
        python_versions quiet no_source show_config = (Some x, ev0)"
      using a by (simp add: pipdownload_def)
    then show ?thesis using e0 by blast
  next
    case (Inr fs)
    obtain pt pv ev1 where fs: "fs = ((pt, pv), ev1)" by (metis surj_pair)
    have e1: "check_calls ev1 = [] \<and> gets ev1 = [] \<and> downloads ev1 = []"
      using Inr fs filter_spec_events by blast
    have pre: "check_calls (ev0 @ ev1 @ snd (quiet_step quiet) @ snd (dest_step e dest_dir)) = [] \<and>
               gets (ev0 @ ev1 @ snd (quiet_step quiet) @ snd (dest_step e dest_dir)) = [] \<and>
               downloads (ev0 @ ev1 @ snd (quiet_step quiet) @ snd (dest_step e dest_dir)) = []"
      using e0 e1 by (simp add: check_calls_append gets_append downloads_append setup_events)
    have "pipdownload e packages index_url requirement_file dest_dir whl_suffixes platform_tags
        python_versions quiet no_source show_config =
      (fst (packages_loop e (choose_index_url (zone e) index_url) quiet (fst (quiet_step quiet))
              (fst (dest_step e dest_dir)) pt pv no_source 0
              (chain_packages e requirement_file packages)),
       (ev0 @ ev1 @ snd (quiet_step quiet) @ snd (dest_step e dest_dir))
       @ snd (packages_loop e (choose_index_url (zone e) index_url) quiet
              (fst (quiet_step quiet)) (fst (dest_step e dest_dir)) pt pv no_source 0
              (chain_packages e requirement_file packages)))"
      using a Inr fs by (simp add: pipdownload_def split: prod.splits)
    then show ?thesis using pre by blast
  qed
qed

lemma count_list_remdups: "count_list (remdups xs) p = (if p \<in> set xs then 1 else 0)"
  by (induction xs) auto

lemma count_list_append: "count_list (xs @ ys) p = count_list xs p + count_list ys p"
  by (induction xs) auto


lemma download_in_links:
  "file \<in> set files \<Longrightarrow> is_eligible pt pv ns fn file \<Longrightarrow>
   Download d file dd \<in> set (links_loop d dd pt pv ns fn files)"
  by (induction files) auto

lemma links_in_process_file:
  "name (resolve_package_file e fn) = Some n \<Longrightarrow>
   session_get e (mkurl_pypi_url e iu n) = Inr text \<Longrightarrow>
   snd (process_file e iu d dd pt pv ns fn) =
     Get (mkurl_pypi_url e iu n) #
     links_loop d dd pt pv ns fn
       (get_file_links e text (mkurl_pypi_url e iu n) (resolve_package_file e fn))"
  by (simp add: process_file_def Let_def)

lemma links_loop_all:
  "\<forall>file \<in> set files. is_eligible pt pv ns fn file \<Longrightarrow>
   links_loop d dd pt pv ns fn files = map (\<lambda>file. Download d file dd) files"
  by (induction files) auto

section \<open>The loops on a list split in two\<close>

lemma packages_loop_append:
  "packages_loop e iu q d dd pt pv ns i (pre @ rest) =
     (case packages_loop e iu q d dd pt pv ns i pre of
        (Some x, evs) \<Rightarrow> (Some x, evs)
      | (None, evs) \<Rightarrow>
          (case packages_loop e iu q d dd pt pv ns (i + length pre) rest of
             (r, evs') \<Rightarrow> (r, evs @ evs')))"
proof (induction pre arbitrary: i)
  case Nil
  then show ?case by (simp split: prod.splits)
next
  case (Cons p pre)
  show ?case
    using Cons.IH [of "Suc i"]
    by (simp split: prod.splits option.splits)
qed

lemma files_loop_append:
  "files_loop e iu d dd pt pv ns (pre @ rest) =
     (case files_loop e iu d dd pt pv ns pre of
        (Some x, evs) \<Rightarrow> (Some x, evs)
      | (None, evs) \<Rightarrow>
          (case files_loop e iu d dd pt pv ns rest of
             (r, evs') \<Rightarrow> (r, evs @ evs')))"
proof (induction pre)
  case Nil
  then show ?case by (simp split: prod.splits)
next
  case (Cons p pre)
  then show ?case
    by (simp split: prod.splits option.splits)
qed

lemma process_package_failure:
  "check_call e (command e iu q i p) \<noteq> 0 \<Longrightarrow>
   process_package e iu q d dd pt pv ns i p =
     (Some (CalledProcessError (check_call e (command e iu q i p)) (command e iu q i p)),
      [Log INFO (''We are using pip download command to download package '' @ p),
       Log INFO (replicate 50 (CHR ''-'')),
       CheckCall (command e iu q i p),
       Log ERROR (''Sorry, we can not use pip download to download the package '' @ p
                  @ '', and Exception is below''),
       LogExn ERROR (CalledProcessError (check_call e (command e iu q i p)) (command e iu q i p))])"
  by (simp add: process_package_def Let_def)

section \<open>What the loops do not depend on\<close>














section \<open>The claims about the eligibility decision\<close>

text \<open>
  C5. A candidate whose name contains \<^verbatim>\<open>none-any\<close> is accepted whatever the platform
  tags, the python versions and \<^verbatim>\<open>--no-source\<close> are, and when the index page of the
  package has been fetched, the loop over its links calls \<^verbatim>\<open>download\<close> for it.
\<close>

theorem none_any_always_downloaded:
  assumes "str_in ''none-any'' file"
  shows "is_eligible platform_tags python_versions no_source file_name file \<and>
         (name (resolve_package_file e file_name) = Some n \<and>
          session_get e (mkurl_pypi_url e index_url n) = Inr text \<and>
          file \<in> set (get_file_links e text (mkurl_pypi_url e index_url n)
                        (resolve_package_file e file_name))
          \<longrightarrow> Download download file dest_dir
                \<in> set (snd (process_file e index_url download dest_dir platform_tags
                              python_versions no_source file_name)))"
proof -
  have el: "is_eligible platform_tags python_versions no_source file_name file"
    using assms by (simp add: is_eligible_def)
  then show ?thesis
    by (auto simp: links_in_process_file intro: download_in_links)
qed

theorem none_any_always_downloaded_witness:
  "str_in ''none-any'' ''six-1.0-py3-none-any.whl'' \<and>
   is_eligible (Some [''win_amd64'']) (Some [''cp27'']) True ''six-1.0.tar.gz''
      ''six-1.0-py3-none-any.whl'' \<and>
   Download normal_download ''six-1.0-py3-none-any.whl'' ''/dest''
     \<in> set (snd (process_file example_env default_index_url normal_download ''/dest''
                   (Some [''win_amd64'']) (Some [''cp27'']) True ''six-1.0.tar.gz''))"
proof -
  have h: "str_in ''none-any'' ''six-1.0-py3-none-any.whl''" by simp
  have n: "name (resolve_package_file example_env ''six-1.0.tar.gz'') = Some ''six''"
    by (simp add: example_env_def endswith_def)
  have g: "session_get example_env (mkurl_pypi_url example_env default_index_url ''six'')
            = Inr (mkurl_pypi_url example_env default_index_url ''six'')"
    by (simp add: example_env_def)
  have m: "''six-1.0-py3-none-any.whl''
            \<in> set (get_file_links example_env (mkurl_pypi_url example_env default_index_url ''six'')
                     (mkurl_pypi_url example_env default_index_url ''six'')
                     (resolve_package_file example_env ''six-1.0.tar.gz''))"
    by (simp add: example_env_def example_links_def)
  show ?thesis
    using none_any_always_downloaded [OF h, of "Some [''win_amd64'']" "Some [''cp27'']" True
        "''six-1.0.tar.gz''" example_env "''six''" default_index_url
        "mkurl_pypi_url example_env default_index_url ''six''" normal_download "''/dest''"]
      h n g m
    by blast
qed

text \<open>
  C10. When neither \<^verbatim>\<open>platform_tags\<close> nor \<^verbatim>\<open>python_versions\<close> holds a value
  (each is \<^verbatim>\<open>None\<close> or empty), every candidate is accepted, with or without
  \<^verbatim>\<open>--no-source\<close> and whatever its name is, and the loop over the links of a page
  downloads every link of the page, in the order of the page.
\<close>

theorem no_filter_accepts_everything:
  assumes "\<not> truthy platform_tags" and "\<not> truthy python_versions"
  shows "is_eligible platform_tags python_versions no_source file_name file \<and>
         links_loop download dest_dir platform_tags python_versions no_source file_name files
           = map (\<lambda>file. Download download file dest_dir) files"
proof -
  have "is_eligible platform_tags python_versions no_source file_name f" for f
    using assms by (simp add: is_eligible_def tag_filter_def)
  then show ?thesis by (simp add: links_loop_all)
qed

theorem no_filter_accepts_everything_witness:
  "\<not> truthy None \<and> \<not> truthy (Some []) \<and>
   is_eligible None (Some []) True ''six-1.0-py3-none-any.whl'' ''six-1.0.tar.gz'' \<and>
   links_loop normal_download ''/dest'' None (Some []) True ''six-1.0-py3-none-any.whl'' example_links
     = [Download normal_download ''six-1.0.tar.gz'' ''/dest'',
        Download normal_download ''six-1.0-py3-none-any.whl'' ''/dest'',
        Download normal_download ''six-1.0-cp39-cp39-win_amd64.whl'' ''/dest'',
        Download normal_download ''six-1.0-cp38-cp38-manylinux2014_x86_64.whl'' ''/dest'']"
proof -
  have a: "\<not> truthy None" by simp
  have b: "\<not> truthy (Some [])" by simp
  show ?thesis
    using no_filter_accepts_everything [OF a b, of True "''six-1.0-py3-none-any.whl''"
        "''six-1.0.tar.gz''" normal_download "''/dest''" example_links]
    by (simp add: example_links_def del: links_loop.simps)
qed

text \<open>
  C1. The claim is that a candidate ending in \<^verbatim>\<open>.tar.gz\<close> or \<^verbatim>\<open>.zip\<close> is accepted
  whenever \<^verbatim>\<open>--no-source\<close> is not given. Line 220 tests the name of the file in the
  temporary directory instead of the candidate: with \<^verbatim>\<open>--platform-tag win_amd64\<close>,
  when \<^verbatim>\<open>pip download\<close> has left a wheel in the temporary directory, the source
  archive \<^verbatim>\<open>numpy-1.19.0.zip\<close> of the index page is rejected.
\<close>

theorem source_candidate_filtered_by_tags:
  "endswith ''numpy-1.19.0.zip'' ''.zip'' \<and>
   \<not> is_eligible (Some [''win_amd64'']) (Some []) False
        ''numpy-1.19.0-cp38-cp38-manylinux1_x86_64.whl'' ''numpy-1.19.0.zip''"
  by (simp add: endswith_def is_eligible_def source_rule_def tag_filter_def)




section \<open>The claims about the filters\<close>

text \<open>
  C2. The claim is that the values of \<^verbatim>\<open>--platform-tag\<close> are the platform filter
  whenever the option is given. Line 140 reads \<^verbatim>\<open>if not whl_suffixes or not platform_tags\<close>:
  without \<^verbatim>\<open>--suffix\<close> the condition holds, so that with a settings file whose
  \<^verbatim>\<open>platform_tags\<close> is \<^verbatim>\<open>["manylinux"]\<close> the run with
  \<^verbatim>\<open>--platform-tag win_amd64\<close> filters on \<^verbatim>\<open>manylinux\<close>.
\<close>

theorem settings_override_platform_tag:
  "filter_spec (Some (Object [''platform_tags'' \<mapsto> [''manylinux'']])) [] [''win_amd64''] []
     = Inr ((Some [''manylinux''], None), [Echo ''Using `python_versions` in config file.''])"
  by (simp add: filter_spec_def apply_settings_def apply_suffix_def)



text \<open>
  C9. When the zone of the host is \<^verbatim>\<open>Asia/Shanghai\<close> or \<^verbatim>\<open>Asia/Chongqing\<close> the
  index URL of the run is the mirror \<^verbatim>\<open>https://mirrors.aliyun.com/pypi/simple/\<close>;
  otherwise it is the value of \<^verbatim>\<open>--index-url\<close>, whose default is
  \<^verbatim>\<open>https://pypi.org/simple\<close>. Every command given to the resolver carries that URL
  after \<^verbatim>\<open>-i\<close>, and every index page fetched is \<^verbatim>\<open>mkurl_pypi_url\<close> of that URL
  and a package name.
\<close>

theorem index_url_by_timezone:
  "(zone e \<in> set [''Asia/Shanghai'', ''Asia/Chongqing''] \<longrightarrow>
      choose_index_url (zone e) index_url = ''https://mirrors.aliyun.com/pypi/simple/'') \<and>
   (zone e \<notin> set [''Asia/Shanghai'', ''Asia/Chongqing''] \<longrightarrow>
      choose_index_url (zone e) index_url = index_url) \<and>
   (\<forall>cmd \<in> set (check_calls (snd (pipdownload e packages index_url requirement_file dest_dir
                    whl_suffixes platform_tags python_versions quiet no_source show_config))).
      cmd ! 5 = choose_index_url (zone e) index_url) \<and>
   (\<forall>url \<in> set (gets (snd (pipdownload e packages index_url requirement_file dest_dir
                    whl_suffixes platform_tags python_versions quiet no_source show_config))).
      \<exists>n. url = mkurl_pypi_url e (choose_index_url (zone e) index_url) n)"
proof -
  have a: "zone e \<in> set [''Asia/Shanghai'', ''Asia/Chongqing''] \<longrightarrow>
      choose_index_url (zone e) index_url = ''https://mirrors.aliyun.com/pypi/simple/''"
    by (simp add: choose_index_url_def)
  have b: "zone e \<notin> set [''Asia/Shanghai'', ''Asia/Chongqing''] \<longrightarrow>
      choose_index_url (zone e) index_url = index_url"
    by (simp add: choose_index_url_def)
  have c: "\<forall>cmd \<in> set (check_calls (snd (pipdownload e packages index_url requirement_file dest_dir
                    whl_suffixes platform_tags python_versions quiet no_source show_config))).
      cmd ! 5 = choose_index_url (zone e) index_url"
    using pipdownload_run [of e packages index_url requirement_file dest_dir whl_suffixes
            platform_tags python_versions quiet no_source show_config] index_packages_loop
    by (fastforce simp: check_calls_append)
  have d: "\<forall>url \<in> set (gets (snd (pipdownload e packages index_url requirement_file dest_dir
                    whl_suffixes platform_tags python_versions quiet no_source show_config))).
      \<exists>n. url = mkurl_pypi_url e (choose_index_url (zone e) index_url) n"
    using pipdownload_run [of e packages index_url requirement_file dest_dir whl_suffixes
            platform_tags python_versions quiet no_source show_config] gets_packages_loop
    by (fastforce simp: gets_append)
  show ?thesis using a b c d by blast
qed

theorem index_url_by_timezone_witness:
  "zone (example_env\<lparr>zone := ''Asia/Shanghai''\<rparr>) \<in> set [''Asia/Shanghai'', ''Asia/Chongqing''] \<and>
   choose_index_url (zone (example_env\<lparr>zone := ''Asia/Shanghai''\<rparr>)) default_index_url
     = ''https://mirrors.aliyun.com/pypi/simple/'' \<and>
   check_calls (snd (pipdownload (example_env\<lparr>zone := ''Asia/Shanghai''\<rparr>) [''six'']
       default_index_url None None [] [] [] False False False))
     = [[''python3'', ''-m'', ''pip'', ''download'', ''-i'',
         ''https://mirrors.aliyun.com/pypi/simple/'', ''--dest'', ''/tmp/w'', ''six'']] \<and>
   zone example_env \<notin> set [''Asia/Shanghai'', ''Asia/Chongqing''] \<and>
   choose_index_url (zone example_env) default_index_url = ''https://pypi.org/simple''"
proof -
  have run: "check_calls (snd (pipdownload (example_env\<lparr>zone := ''Asia/Shanghai''\<rparr>) [''six'']
       default_index_url None None [] [] [] False False False))
     = [[''python3'', ''-m'', ''pip'', ''download'', ''-i'',
         ''https://mirrors.aliyun.com/pypi/simple/'', ''--dest'', ''/tmp/w'', ''six'']]"
    by code_simp
  have z1: "zone (example_env\<lparr>zone := ''Asia/Shanghai''\<rparr>) \<in> set [''Asia/Shanghai'', ''Asia/Chongqing'']"
    by simp
  have z2: "zone example_env \<notin> set [''Asia/Shanghai'', ''Asia/Chongqing'']"
    by (simp add: example_env_def)
  have c1: "choose_index_url (zone (example_env\<lparr>zone := ''Asia/Shanghai''\<rparr>)) default_index_url
     = ''https://mirrors.aliyun.com/pypi/simple/''"
    using index_url_by_timezone [of "example_env\<lparr>zone := ''Asia/Shanghai''\<rparr>" default_index_url
            "[''six'']" None None "[]" "[]" "[]" False False False] z1
    by blast
  have c2: "choose_index_url (zone example_env) default_index_url = default_index_url"
    using index_url_by_timezone [of example_env default_index_url
            "[''six'']" None None "[]" "[]" "[]" False False False] z2
    by blast
  have c3: "choose_index_url (zone example_env) default_index_url = ''https://pypi.org/simple''"
    using c2 unfolding default_index_url_def .
  show ?thesis
    using z1 c1 run z2 c3 by blast
qed

section \<open>The claims about the loop over the packages\<close>

text \<open>
  C3, as stated, fails: only the specifiers of the requirements file go through a set; the
  positional ones are chained after them as they are (line 172). With \<^verbatim>\<open>six\<close> in the
  requirements file and \<^verbatim>\<open>six\<close> on the command line the resolver runs twice for it.
\<close>

theorem duplicate_specifier_resolved_twice:
  "''six'' \<in> set (parse_requirements example_env ''requirements.txt'') \<and>
   fst (pipdownload example_env [''six''] default_index_url (Some ''requirements.txt'') None
          [] [] [] False False False) = None \<and>
   map package_of (check_calls (snd (pipdownload example_env [''six''] default_index_url
          (Some ''requirements.txt'') None [] [] [] False False False))) = [''six'', ''six'']"
  by code_simp

text \<open>
  C3, amended. In a run that no exception ends, the resolver is called once for each
  specifier of the requirements file, duplicates among these removed (in some order), and then
  once for each positional specifier, in the order of the command line: a specifier is
  resolved once if the requirements file has it (and not at all if it has not), plus once for
  every time it is given on the command line.
\<close>

theorem resolver_calls_follow_chain:
  assumes "fst (pipdownload e packages index_url requirement_file dest_dir whl_suffixes
                  platform_tags python_versions quiet no_source show_config) = None"
  shows "(\<exists>extra. distinct extra \<and>
            set extra = (case requirement_file of
                           Some f \<Rightarrow> set (parse_requirements e f)
                         | None \<Rightarrow> {}) \<and>
            map package_of (check_calls (snd (pipdownload e packages index_url requirement_file
              dest_dir whl_suffixes platform_tags python_versions quiet no_source show_config)))
              = extra @ packages) \<and>
         count_list (map package_of (check_calls (snd (pipdownload e packages index_url
            requirement_file dest_dir whl_suffixes platform_tags python_versions quiet no_source
            show_config)))) p
           = (case requirement_file of
                Some f \<Rightarrow> (if p \<in> set (parse_requirements e f) then 1 else 0)
              | None \<Rightarrow> 0) + count_list packages p"
proof -
  have m: "map package_of (check_calls (snd (pipdownload e packages index_url requirement_file dest_dir
            whl_suffixes platform_tags python_versions quiet no_source show_config)))
           = chain_packages e requirement_file packages"
    using assms pipdownload_run [of e packages index_url requirement_file dest_dir whl_suffixes
            platform_tags python_versions quiet no_source show_config]
    by (auto simp: check_calls_append check_calls_packages_loop)
  have a: "\<exists>extra. distinct extra \<and>
            set extra = (case requirement_file of
                           Some f \<Rightarrow> set (parse_requirements e f)
                         | None \<Rightarrow> {}) \<and>
            chain_packages e requirement_file packages = extra @ packages"
  proof (cases requirement_file)
    case None
    then show ?thesis by (simp add: chain_packages_def)
  next
    case (Some f)
    then have "distinct (remdups (parse_requirements e f)) \<and>
               set (remdups (parse_requirements e f)) = set (parse_requirements e f) \<and>
               chain_packages e requirement_file packages
                 = remdups (parse_requirements e f) @ packages"
      by (simp add: chain_packages_def)
    then show ?thesis using Some by auto
  qed
  have b: "count_list (chain_packages e requirement_file packages) p
           = (case requirement_file of
                Some f \<Rightarrow> (if p \<in> set (parse_requirements e f) then 1 else 0)
              | None \<Rightarrow> 0) + count_list packages p"
    by (simp add: chain_packages_def count_list_append count_list_remdups split: option.splits)
  show ?thesis
    unfolding m using a b by blast
qed

theorem resolver_calls_follow_chain_witness:
  "fst (pipdownload example_env [''six'', ''attrs'', ''attrs''] default_index_url
          (Some ''requirements.txt'') None [] [] [] False False False) = None \<and>
   count_list (map package_of (check_calls (snd (pipdownload example_env [''six'', ''attrs'', ''attrs'']
          default_index_url (Some ''requirements.txt'') None [] [] [] False False False)))) ''six'' = 2 \<and>
   count_list (map package_of (check_calls (snd (pipdownload example_env [''six'', ''attrs'', ''attrs'']
          default_index_url (Some ''requirements.txt'') None [] [] [] False False False)))) ''attrs'' = 2"
proof -
  have h: "fst (pipdownload example_env [''six'', ''attrs'', ''attrs''] default_index_url
          (Some ''requirements.txt'') None [] [] [] False False False) = None"
    by code_simp
  show ?thesis
    using resolver_calls_follow_chain [OF h, of "''six''"]
          resolver_calls_follow_chain [OF h, of "''attrs''"] h
    by (simp add: example_env_def)
qed

text \<open>
  C6. When the specifiers before the \<open>k\<close>-th have been processed without an exception and the
  resolver exits with a status other than zero for the \<open>k\<close>-th, the loop over the packages ends
  with \<^verbatim>\<open>CalledProcessError\<close> for that command: after the events of the earlier
  specifiers come the two info lines, the call of the resolver and the two error lines, and
  nothing else; no later specifier is processed. The downloads of the run are exactly the
  downloads made for the earlier specifiers.
\<close>

theorem resolver_failure_stops_batch:
  assumes "fst (packages_loop e index_url quiet download dest_dir platform_tags python_versions
                  no_source i pre) = None"
      and "check_call e (command e index_url quiet (i + length pre) package) \<noteq> 0"
  shows "packages_loop e index_url quiet download dest_dir platform_tags python_versions no_source i
           (pre @ package # post) =
         (Some (CalledProcessError
                  (check_call e (command e index_url quiet (i + length pre) package))
                  (command e index_url quiet (i + length pre) package)),
          snd (packages_loop e index_url quiet download dest_dir platform_tags python_versions
                 no_source i pre)
          @ [Log INFO (''We are using pip download command to download package '' @ package),
             Log INFO (replicate 50 (CHR ''-'')),
             CheckCall (command e index_url quiet (i + length pre) package),
             Log ERROR (''Sorry, we can not use pip download to download the package '' @ package
                        @ '', and Exception is below''),
             LogExn ERROR (CalledProcessError
                  (check_call e (command e index_url quiet (i + length pre) package))
                  (command e index_url quiet (i + length pre) package))]) \<and>
         downloads (snd (packages_loop e index_url quiet download dest_dir platform_tags
                           python_versions no_source i (pre @ package # post)))
           = downloads (snd (packages_loop e index_url quiet download dest_dir platform_tags
                           python_versions no_source i pre))"
proof -
  obtain evs where pre: "packages_loop e index_url quiet download dest_dir platform_tags
      python_versions no_source i pre = (None, evs)"
    using assms(1) by (metis prod.collapse)
  have fail: "process_package e index_url quiet download dest_dir platform_tags python_versions
      no_source (i + length pre) package =
     (Some (CalledProcessError
              (check_call e (command e index_url quiet (i + length pre) package))
              (command e index_url quiet (i + length pre) package)),
      [Log INFO (''We are using pip download command to download package '' @ package),
       Log INFO (replicate 50 (CHR ''-'')),
       CheckCall (command e index_url quiet (i + length pre) package),
       Log ERROR (''Sorry, we can not use pip download to download the package '' @ package
                  @ '', and Exception is below''),
       LogExn ERROR (CalledProcessError
              (check_call e (command e index_url quiet (i + length pre) package))
              (command e index_url quiet (i + length pre) package))])"
    using assms(2) by (rule process_package_failure)
  have whole: "packages_loop e index_url quiet download dest_dir platform_tags python_versions
      no_source i (pre @ package # post) =
     (Some (CalledProcessError
              (check_call e (command e index_url quiet (i + length pre) package))
              (command e index_url quiet (i + length pre) package)),
      evs @
      [Log INFO (''We are using pip download command to download package '' @ package),
       Log INFO (replicate 50 (CHR ''-'')),
       CheckCall (command e index_url quiet (i + length pre) package),
       Log ERROR (''Sorry, we can not use pip download to download the package '' @ package
                  @ '', and Exception is below''),
       LogExn ERROR (CalledProcessError
              (check_call e (command e index_url quiet (i + length pre) package))
              (command e index_url quiet (i + length pre) package))])"
    unfolding packages_loop_append pre by (simp add: fail)
  show ?thesis
    unfolding whole pre by (simp add: downloads_append)
qed

theorem resolver_failure_stops_batch_witness:
  "fst (packages_loop example_env default_index_url False normal_download ''/dest'' None None False 0
          [''six'']) = None \<and>
   check_call example_env (command example_env default_index_url False (0 + length [''six''])
          ''nosuch'') \<noteq> 0 \<and>
   fst (packages_loop example_env default_index_url False normal_download ''/dest'' None None False 0
          [''six'', ''nosuch'', ''attrs''])
     = Some (CalledProcessError 1
               [''python3'', ''-m'', ''pip'', ''download'', ''-i'', ''https://pypi.org/simple'',
                ''--dest'', ''/tmp/w'', ''nosuch'']) \<and>
   downloads (snd (packages_loop example_env default_index_url False normal_download ''/dest'' None
          None False 0 [''six'', ''nosuch'', ''attrs'']))
     = [(''six-1.0.tar.gz'', ''/dest''), (''six-1.0-py3-none-any.whl'', ''/dest''),
        (''six-1.0-cp39-cp39-win_amd64.whl'', ''/dest''),
        (''six-1.0-cp38-cp38-manylinux2014_x86_64.whl'', ''/dest'')]"
proof -
  have h1: "fst (packages_loop example_env default_index_url False normal_download ''/dest'' None
                   None False 0 [''six'']) = None"
    by code_simp
  have c1: "command example_env default_index_url False (0 + length [''six'']) ''nosuch''
              = [''python3'', ''-m'', ''pip'', ''download'', ''-i'', ''https://pypi.org/simple'',
                 ''--dest'', ''/tmp/w'', ''nosuch'']"
    by (simp add: command_def example_env_def default_index_url_def)
  have c2: "check_call example_env
              [''python3'', ''-m'', ''pip'', ''download'', ''-i'', ''https://pypi.org/simple'',
               ''--dest'', ''/tmp/w'', ''nosuch''] = 1"
    by (simp add: example_env_def package_of_def)
  have h2: "check_call example_env (command example_env default_index_url False
              (0 + length [''six'']) ''nosuch'') \<noteq> 0"
    unfolding c1 c2 by simp
  have d: "downloads (snd (packages_loop example_env default_index_url False normal_download
                   ''/dest'' None None False 0 [''six'']))
     = [(''six-1.0.tar.gz'', ''/dest''), (''six-1.0-py3-none-any.whl'', ''/dest''),
        (''six-1.0-cp39-cp39-win_amd64.whl'', ''/dest''),
        (''six-1.0-cp38-cp38-manylinux2014_x86_64.whl'', ''/dest'')]"
    by code_simp
  note t = resolver_failure_stops_batch [OF h1 h2, where post = "[''attrs'']"]
  have e: "[''six''] @ ''nosuch'' # [''attrs''] = [''six'', ''nosuch'', ''attrs'']" by simp
  have r1: "fst (packages_loop example_env default_index_url False normal_download ''/dest'' None
                   None False 0 [''six'', ''nosuch'', ''attrs''])
     = Some (CalledProcessError 1
               [''python3'', ''-m'', ''pip'', ''download'', ''-i'', ''https://pypi.org/simple'',
                ''--dest'', ''/tmp/w'', ''nosuch''])"
    using t [THEN conjunct1] unfolding e c1 c2 by (simp del: packages_loop.simps)
  have r2: "downloads (snd (packages_loop example_env default_index_url False normal_download
                   ''/dest'' None None False 0 [''six'', ''nosuch'', ''attrs'']))
     = [(''six-1.0.tar.gz'', ''/dest''), (''six-1.0-py3-none-any.whl'', ''/dest''),
        (''six-1.0-cp39-cp39-win_amd64.whl'', ''/dest''),
        (''six-1.0-cp38-cp38-manylinux2014_x86_64.whl'', ''/dest'')]"
    using t [THEN conjunct2] d unfolding e by (simp del: packages_loop.simps)
  show ?thesis using h1 h2 r1 r2 by blast
qed

section \<open>The claim about the files of the temporary directory\<close>

text \<open>
  C8. A file of the temporary directory for which \<^verbatim>\<open>resolve_package_file\<close> gives no
  name raises nothing and only logs the warning of lines 206 to 209. In the loop over the files
  \<open>pre @ file_name # post\<close> the files before it are processed as without it, the warning is
  logged, and the files after it are processed as without it: the loop ends the same way and
  makes the same downloads as on \<open>pre @ post\<close>.
\<close>

theorem unclassifiable_file_skipped:
  assumes "name (resolve_package_file e file_name) = None"
  shows "process_file e index_url download dest_dir platform_tags python_versions no_source file_name
           = (None, [Log WARNING cannot_resolve]) \<and>
         files_loop e index_url download dest_dir platform_tags python_versions no_source
             (pre @ file_name # post) =
           (case files_loop e index_url download dest_dir platform_tags python_versions no_source pre of
              (Some x, evs) \<Rightarrow> (Some x, evs)
            | (None, evs) \<Rightarrow>
                (case files_loop e index_url download dest_dir platform_tags python_versions
                        no_source post of
                   (r, evs') \<Rightarrow> (r, evs @ Log WARNING cannot_resolve # evs'))) \<and>
         fst (files_loop e index_url download dest_dir platform_tags python_versions no_source
                (pre @ file_name # post))
           = fst (files_loop e index_url download dest_dir platform_tags python_versions no_source
                (pre @ post)) \<and>
         downloads (snd (files_loop e index_url download dest_dir platform_tags python_versions
                no_source (pre @ file_name # post)))
           = downloads (snd (files_loop e index_url download dest_dir platform_tags python_versions
                no_source (pre @ post)))"
proof -
  have pf: "process_file e index_url download dest_dir platform_tags python_versions no_source
              file_name = (None, [Log WARNING cannot_resolve])"
    using assms by (simp add: process_file_def Let_def)
  have step: "files_loop e index_url download dest_dir platform_tags python_versions no_source
                (file_name # post) =
              (case files_loop e index_url download dest_dir platform_tags python_versions
                      no_source post of
                 (r, evs') \<Rightarrow> (r, Log WARNING cannot_resolve # evs'))"
    by (simp add: pf)
  have a: "files_loop e index_url download dest_dir platform_tags python_versions no_source
             (pre @ file_name # post) =
           (case files_loop e index_url download dest_dir platform_tags python_versions no_source pre of
              (Some x, evs) \<Rightarrow> (Some x, evs)
            | (None, evs) \<Rightarrow>
                (case files_loop e index_url download dest_dir platform_tags python_versions
                        no_source post of
                   (r, evs') \<Rightarrow> (r, evs @ Log WARNING cannot_resolve # evs')))"
    unfolding files_loop_append [of e index_url download dest_dir platform_tags python_versions
        no_source pre "file_name # post"] step
    by (simp split: prod.splits option.splits)
  have b: "fst (files_loop e index_url download dest_dir platform_tags python_versions no_source
                (pre @ file_name # post))
           = fst (files_loop e index_url download dest_dir platform_tags python_versions no_source
                (pre @ post))"
    unfolding a files_loop_append [of e index_url download dest_dir platform_tags python_versions
        no_source pre post]
    by (simp split: prod.splits option.splits)
  have c: "downloads (snd (files_loop e index_url download dest_dir platform_tags python_versions
                no_source (pre @ file_name # post)))
           = downloads (snd (files_loop e index_url download dest_dir platform_tags python_versions
                no_source (pre @ post)))"
    unfolding a files_loop_append [of e index_url download dest_dir platform_tags python_versions
        no_source pre post]
    by (simp add: downloads_append split: prod.splits option.splits)
  show ?thesis using pf a b c by blast
qed

theorem unclassifiable_file_skipped_witness:
  "name (resolve_package_file example_env ''README'') = None \<and>
   process_file example_env default_index_url normal_download ''/dest'' None None False ''README''
     = (None, [Log WARNING cannot_resolve]) \<and>
   fst (files_loop example_env default_index_url normal_download ''/dest'' None None False
          [''README'', ''six-1.0.tar.gz'']) = None \<and>
   downloads (snd (files_loop example_env default_index_url normal_download ''/dest'' None None
          False [''README'', ''six-1.0.tar.gz'']))
     = [(''six-1.0.tar.gz'', ''/dest''), (''six-1.0-py3-none-any.whl'', ''/dest''),
        (''six-1.0-cp39-cp39-win_amd64.whl'', ''/dest''),
        (''six-1.0-cp38-cp38-manylinux2014_x86_64.whl'', ''/dest'')]"
proof -
  have h: "name (resolve_package_file example_env ''README'') = None"
    by (simp add: example_env_def endswith_def)
  have d1: "fst (files_loop example_env default_index_url normal_download ''/dest'' None None False
                   ([] @ [''six-1.0.tar.gz''])) = None"
    by code_simp
  have d2: "downloads (snd (files_loop example_env default_index_url normal_download ''/dest'' None
                   None False ([] @ [''six-1.0.tar.gz''])))
     = [(''six-1.0.tar.gz'', ''/dest''), (''six-1.0-py3-none-any.whl'', ''/dest''),
        (''six-1.0-cp39-cp39-win_amd64.whl'', ''/dest''),
        (''six-1.0-cp38-cp38-manylinux2014_x86_64.whl'', ''/dest'')]"
    by code_simp
  note t = unclassifiable_file_skipped [OF h, of default_index_url normal_download "''/dest''" None
             None False "[]" "[''six-1.0.tar.gz'']"]
  have e: "[] @ ''README'' # [''six-1.0.tar.gz''] = [''README'', ''six-1.0.tar.gz'']" by simp
  have r0: "process_file example_env default_index_url normal_download ''/dest'' None None False
              ''README'' = (None, [Log WARNING cannot_resolve])"
    using t by blast
  have r1: "fst (files_loop example_env default_index_url normal_download ''/dest'' None None False
                   [''README'', ''six-1.0.tar.gz'']) = None"
    using t d1 unfolding e by metis
  have r2: "downloads (snd (files_loop example_env default_index_url normal_download ''/dest'' None
                   None False [''README'', ''six-1.0.tar.gz'']))
     = [(''six-1.0.tar.gz'', ''/dest''), (''six-1.0-py3-none-any.whl'', ''/dest''),
        (''six-1.0-cp39-cp39-win_amd64.whl'', ''/dest''),
        (''six-1.0-cp38-cp38-manylinux2014_x86_64.whl'', ''/dest'')]"
    using t d2 unfolding e by metis
  show ?thesis using h r0 r1 r2 by blast
qed

end
